theory Spec2Isabelle
  imports Main
begin

section \<open>The controller of the blogging backend (src/src/app.controller.ts)\<close>

text \<open>
  The handlers of \<^verbatim>\<open>AppController\<close> are embedded as functions that take the
  injected services as a parameter and pass the repository state explicitly. A handler
  yields its outcome (the value the promise resolves to, or the exception it rejects
  with), the list of the service calls it issued, in order, and the repository state
  it leaves.
\<close>

subsection \<open>Data\<close>

text \<open>The Prisma models, with the fields the controller and the spec name.\<close>

record UserModel =
  user_id :: int
  user_email :: string
  user_name :: string
  user_password :: string

record PostModel =
  post_id :: int
  post_title :: string
  post_content :: string
  post_published :: bool
  post_authorId :: int

text \<open>The request shapes (the DTO classes at the top of the file).\<close>

record RegisterUserDTO =
  reg_name :: string
  reg_email :: string
  reg_password :: string

record LoginDTO =
  login_email :: string
  login_password :: string

record CreatePostDraftDTO =
  draft_title :: string
  draft_content :: string
  draft_authorEmail :: string

text \<open>
  \<^verbatim>\<open>PublishPostParams\<close>, \<^verbatim>\<open>GetPostParams\<close>, \<^verbatim>\<open>UpdatePostParams\<close> and
  \<^verbatim>\<open>DeletePostParams\<close> each declare one field \<^verbatim>\<open>id: number\<close>, which the handlers
  read through \<^verbatim>\<open>Number(params.id)\<close>; the model takes the route parameter as that
  integer.

  \<^verbatim>\<open>PostQueryParams\<close>: \<^verbatim>\<open>skip\<close> and \<^verbatim>\<open>take\<close> are optional numeric strings. When
  present they are non-empty strings, which JavaScript counts as true whatever number
  they denote, so \<^verbatim>\<open>query.take ? ... : ...\<close> tests presence; the model keeps the
  number \<^verbatim>\<open>Number(query.take)\<close> yields. \<^verbatim>\<open>searchString\<close> is an optional string, and
  an empty one counts as false.
\<close>

record PostQueryParams =
  q_skip :: "nat option"
  q_take :: "nat option"
  q_searchString :: "string option"

record UpdatePostBody =
  body_title :: "string option"
  body_content :: "string option"

text \<open>What the handlers hand to the services.\<close>

record UserCreateInput =
  uc_email :: string
  uc_name :: string
  uc_password :: string

text \<open>\<^verbatim>\<open>{ title, content, author: { connect: { email: authorEmail } } }\<close>\<close>

record PostCreateInput =
  pc_title :: string
  pc_content :: string
  pc_author_connect_email :: string

text \<open>The \<^verbatim>\<open>data\<close> of an update: a field left out is \<open>None\<close>.\<close>

record PostUpdateData =
  upd_title :: "string option"
  upd_content :: "string option"
  upd_published :: "bool option"

text \<open>The \<^verbatim>\<open>where\<close> of a list query: \<^verbatim>\<open>{}\<close>, \<^verbatim>\<open>{ OR: [...] }\<close>,
  \<^verbatim>\<open>{ content: { contains } }\<close>, \<^verbatim>\<open>{ title: { contains } }\<close>.\<close>

datatype PostWhereInput =
  WhereEmpty
| WhereOR "PostWhereInput list"
| ContentContains string
| TitleContains string

record PostsArgs =
  args_take :: "nat option"
  args_skip :: "nat option"
  args_where :: PostWhereInput

text \<open>
  What can be thrown: an \<^verbatim>\<open>HttpException\<close> with its message and status, a
  \<^verbatim>\<open>PrismaClientKnownRequestError\<close> with its code, or anything else.
\<close>

datatype thrown =
  HttpException string nat
| PrismaClientKnownRequestError string
| OtherError string

text \<open>
  A handler returns a value, resolves to \<^verbatim>\<open>undefined\<close> (it falls off its end), or
  throws.
\<close>

datatype 'a outcome = Returns 'a | ResolvesUndefined | Throws thrown

text \<open>The calls a handler issues, as they are logged in its trace.\<close>

datatype call =
  CallCreateUser UserCreateInput
| CallFindUser string
| CallCreatePost PostCreateInput
| CallPost int
| CallPosts PostsArgs
| CallUpdatePost int PostUpdateData
| CallDeletePost int
| ConsoleLog thrown

fun is_write :: "call \<Rightarrow> bool" where
  "is_write (CallCreateUser _) = True"
| "is_write (CallCreatePost _) = True"
| "is_write (CallUpdatePost _ _) = True"
| "is_write (CallDeletePost _) = True"
| "is_write _ = False"

fun is_read :: "call \<Rightarrow> bool" where
  "is_read (CallFindUser _) = True"
| "is_read (CallPost _) = True"
| "is_read (CallPosts _) = True"
| "is_read _ = False"

text \<open>
  The injected \<^verbatim>\<open>UserService\<close> and \<^verbatim>\<open>PostService\<close> over a repository state
  \<open>'s\<close>. A read answers or throws; a write also leaves a state.
\<close>

record 's services =
  userService_createUser :: "UserCreateInput \<Rightarrow> 's \<Rightarrow> (thrown + UserModel) \<times> 's"
  userService_findUser :: "string \<Rightarrow> 's \<Rightarrow> thrown + UserModel option"
  postService_createPost :: "PostCreateInput \<Rightarrow> 's \<Rightarrow> (thrown + PostModel) \<times> 's"
  postService_post :: "int \<Rightarrow> 's \<Rightarrow> thrown + PostModel option"
  postService_posts :: "PostsArgs \<Rightarrow> 's \<Rightarrow> thrown + PostModel list"
  postService_updatePost :: "int \<Rightarrow> PostUpdateData \<Rightarrow> 's \<Rightarrow> (thrown + PostModel) \<times> 's"
  postService_deletePost :: "int \<Rightarrow> 's \<Rightarrow> (thrown + PostModel) \<times> 's"

text \<open>The response shapes.\<close>

record PublicUser =
  pu_email :: string
  pu_id :: int
  pu_name :: string

record 'a DataResponse =
  statusCode :: nat
  data :: 'a

record MessageResponse =
  msg_statusCode :: nat
  message :: string

record TokenClaims =
  sub :: int
  claim_email :: string
  claim_name :: string

subsection \<open>Registration and login\<close>

text \<open>
  The \<^verbatim>\<open>catch\<close> of \<^verbatim>\<open>signupUser\<close>: a known Prisma error of code P2002 becomes an
  \<^verbatim>\<open>HttpException\<close> of status 404; a known Prisma error of another code passes both
  \<^verbatim>\<open>if\<close>s and the handler falls off its end; any other error is logged and becomes
  an \<^verbatim>\<open>HttpException\<close> of status 500.
\<close>

fun signupUser_catch :: "thrown \<Rightarrow> 'a outcome \<times> call list" where
  "signupUser_catch (PrismaClientKnownRequestError code) =
     (if code = ''P2002''
      then (Throws (HttpException
              ''Email or contact number already exist, please provide another one'' 404), [])
      else (ResolvesUndefined, []))"
| "signupUser_catch error =
     (Throws (HttpException ''Something went wrong'' 500), [ConsoleLog error])"

text \<open>\<^verbatim>\<open>bcrypt.hash(password, 12)\<close> is the parameter \<open>hash\<close>: it is salted, so it is
  a function of the call, and it may throw.\<close>

definition signupUser ::
  "'s services \<Rightarrow> (string \<Rightarrow> thrown + string) \<Rightarrow> RegisterUserDTO \<Rightarrow> 's
     \<Rightarrow> PublicUser DataResponse outcome \<times> call list \<times> 's" where
  "signupUser svc hash userData s =
     (case hash (reg_password userData) of
        Inl error \<Rightarrow>
          (case signupUser_catch error of (out, logged) \<Rightarrow> (out, logged, s))
      | Inr hashedPassword \<Rightarrow>
          (let input = \<lparr>uc_email = reg_email userData, uc_name = reg_name userData,
                         uc_password = hashedPassword\<rparr>
           in case userService_createUser svc input s of
                (Inl error, s') \<Rightarrow>
                  (case signupUser_catch error of
                     (out, logged) \<Rightarrow> (out, CallCreateUser input # logged, s'))
              | (Inr user, s') \<Rightarrow>
                  (Returns \<lparr>statusCode = 200,
                            data = \<lparr>pu_email = user_email user, pu_id = user_id user,
                                    pu_name = user_name user\<rparr>\<rparr>,
                   [CallCreateUser input], s')))"

text \<open>\<^verbatim>\<open>bcrypt.compare\<close> and \<^verbatim>\<open>jwtService.signAsync\<close> are parameters. The
  comparison is evaluated only when a user was found.\<close>

definition login ::
  "'s services \<Rightarrow> (string \<Rightarrow> string \<Rightarrow> thrown + bool) \<Rightarrow> (TokenClaims \<Rightarrow> thrown + string)
     \<Rightarrow> LoginDTO \<Rightarrow> 's \<Rightarrow> string DataResponse outcome \<times> call list \<times> 's" where
  "login svc compare signAsync body s =
     (case userService_findUser svc (login_email body) s of
        Inl error \<Rightarrow> (Throws error, [CallFindUser (login_email body)], s)
      | Inr None \<Rightarrow>
          (Throws (HttpException ''Invalid email or password'' 401),
           [CallFindUser (login_email body)], s)
      | Inr (Some user) \<Rightarrow>
          (case compare (login_password body) (user_password user) of
             Inl error \<Rightarrow> (Throws error, [CallFindUser (login_email body)], s)
           | Inr False \<Rightarrow>
               (Throws (HttpException ''Invalid email or password'' 401),
                [CallFindUser (login_email body)], s)
           | Inr True \<Rightarrow>
               (case signAsync \<lparr>sub = user_id user, claim_email = user_email user,
                                claim_name = user_name user\<rparr> of
                  Inl error \<Rightarrow> (Throws error, [CallFindUser (login_email body)], s)
                | Inr accessToken \<Rightarrow>
                    (Returns \<lparr>statusCode = 200, data = accessToken\<rparr>,
                     [CallFindUser (login_email body)], s))))"

subsection \<open>Posts\<close>

text \<open>
  The \<^verbatim>\<open>catch\<close> of \<^verbatim>\<open>createPostDraft\<close>: a known Prisma error of code P2025
  becomes \<^verbatim>\<open>HttpException('Author not found', 404)\<close>; every other error passes the
  \<^verbatim>\<open>if\<close>s, nothing is thrown again and the handler falls off its end.
\<close>

fun createPostDraft_catch :: "thrown \<Rightarrow> 'a outcome" where
  "createPostDraft_catch (PrismaClientKnownRequestError code) =
     (if code = ''P2025'' then Throws (HttpException ''Author not found'' 404)
      else ResolvesUndefined)"
| "createPostDraft_catch error = ResolvesUndefined"

definition createPostDraft ::
  "'s services \<Rightarrow> CreatePostDraftDTO \<Rightarrow> 's
     \<Rightarrow> PostModel DataResponse outcome \<times> call list \<times> 's" where
  "createPostDraft svc postData s =
     (let input = \<lparr>pc_title = draft_title postData, pc_content = draft_content postData,
                    pc_author_connect_email = draft_authorEmail postData\<rparr>
      in case postService_createPost svc input s of
           (Inl error, s') \<Rightarrow> (createPostDraft_catch error, [CallCreatePost input], s')
         | (Inr p, s') \<Rightarrow>
             (Returns \<lparr>statusCode = 200, data = p\<rparr>, [CallCreatePost input], s'))"

definition publishPost ::
  "'s services \<Rightarrow> int \<Rightarrow> 's \<Rightarrow> PostModel outcome \<times> call list \<times> 's" where
  "publishPost svc params_id s =
     (case postService_post svc params_id s of
        Inl error \<Rightarrow> (Throws error, [CallPost params_id], s)
      | Inr None \<Rightarrow> (Throws (HttpException ''Post not found'' 404), [CallPost params_id], s)
      | Inr (Some p) \<Rightarrow>
          (let upd = \<lparr>upd_title = None, upd_content = None, upd_published = Some True\<rparr>
           in case postService_updatePost svc (post_id p) upd s of
                (Inl error, s') \<Rightarrow>
                  (Throws error, [CallPost params_id, CallUpdatePost (post_id p) upd], s')
              | (Inr p', s') \<Rightarrow>
                  (Returns p', [CallPost params_id, CallUpdatePost (post_id p) upd], s')))"

definition getPostById ::
  "'s services \<Rightarrow> int \<Rightarrow> 's \<Rightarrow> PostModel DataResponse outcome \<times> call list \<times> 's" where
  "getPostById svc params_id s =
     (case postService_post svc params_id s of
        Inl error \<Rightarrow> (Throws error, [CallPost params_id], s)
      | Inr None \<Rightarrow> (Throws (HttpException ''Post not found'' 404), [CallPost params_id], s)
      | Inr (Some p) \<Rightarrow> (Returns \<lparr>statusCode = 200, data = p\<rparr>, [CallPost params_id], s))"

text \<open>JavaScript's truth value of an optional string: absent and empty are false.\<close>

fun truthy :: "string option \<Rightarrow> bool" where
  "truthy None = False"
| "truthy (Some str) = (str \<noteq> [])"

definition getPosts_args :: "PostQueryParams \<Rightarrow> PostsArgs" where
  "getPosts_args query =
     \<lparr>args_take = q_take query,
      args_skip = q_skip query,
      args_where =
        (case q_searchString query of
           None \<Rightarrow> WhereEmpty
         | Some str \<Rightarrow>
             if truthy (Some str) then WhereOR [ContentContains str, TitleContains str]
             else WhereEmpty)\<rparr>"

definition getPosts ::
  "'s services \<Rightarrow> PostQueryParams \<Rightarrow> 's \<Rightarrow> PostModel list outcome \<times> call list \<times> 's" where
  "getPosts svc query s =
     (case postService_posts svc (getPosts_args query) s of
        Inl error \<Rightarrow> (Throws error, [CallPosts (getPosts_args query)], s)
      | Inr ps \<Rightarrow> (Returns ps, [CallPosts (getPosts_args query)], s))"

definition updatePost ::
  "'s services \<Rightarrow> int \<Rightarrow> UpdatePostBody \<Rightarrow> 's
     \<Rightarrow> PostModel DataResponse outcome \<times> call list \<times> 's" where
  "updatePost svc params_id body s =
     (case postService_post svc params_id s of
        Inl error \<Rightarrow> (Throws error, [CallPost params_id], s)
      | Inr None \<Rightarrow> (Throws (HttpException ''Post not found'' 404), [CallPost params_id], s)
      | Inr (Some p) \<Rightarrow>
          (let upd = \<lparr>upd_title = body_title body, upd_content = body_content body,
                      upd_published = None\<rparr>
           in case postService_updatePost svc (post_id p) upd s of
                (Inl error, s') \<Rightarrow>
                  (Throws error, [CallPost params_id, CallUpdatePost (post_id p) upd], s')
              | (Inr p', s') \<Rightarrow>
                  (Returns \<lparr>statusCode = 200, data = p'\<rparr>,
                   [CallPost params_id, CallUpdatePost (post_id p) upd], s')))"

text \<open>The decimal digits of a number, for the message of \<^verbatim>\<open>deletePost\<close>.\<close>

function show_nat :: "nat \<Rightarrow> string" where
  "show_nat n =
     (if n < 10 then [''0123456789'' ! n]
      else show_nat (n div 10) @ [''0123456789'' ! (n mod 10)])"
  by pat_completeness auto
termination
  by (relation "measure (\<lambda>n. n)") auto

definition show_int :: "int \<Rightarrow> string" where
  "show_int i = (if i < 0 then CHR ''-'' # show_nat (nat (- i)) else show_nat (nat i))"

definition deletePost ::
  "'s services \<Rightarrow> int \<Rightarrow> 's \<Rightarrow> MessageResponse outcome \<times> call list \<times> 's" where
  "deletePost svc params_id s =
     (case postService_post svc params_id s of
        Inl error \<Rightarrow> (Throws error, [CallPost params_id], s)
      | Inr None \<Rightarrow> (Throws (HttpException ''Post not found'' 404), [CallPost params_id], s)
      | Inr (Some p) \<Rightarrow>
          (case postService_deletePost svc params_id s of
             (Inl error, s') \<Rightarrow>
               (Throws error, [CallPost params_id, CallDeletePost params_id], s')
           | (Inr _, s') \<Rightarrow>
               (Returns \<lparr>msg_statusCode = 200,
                         message = ''Successfully deleted post with id '' @ show_int params_id\<rparr>,
                [CallPost params_id, CallDeletePost params_id], s')))"

subsection \<open>The repository\<close>

text \<open>
  \<^verbatim>\<open>user.service.ts\<close> and \<^verbatim>\<open>post.service.ts\<close> are not among the sources. The
  definitions of this subsection are an in-memory repository written from the spec's
  contract of the persistence layer: point lookup by id and by email, a unique email,
  substring search, offset and limit, partial update, system-generated ids.
\<close>

text \<open>Modelled from the spec: the persisted state, the users and the posts in the
  order of their creation, and the next ids the system generates.\<close>

record store =
  st_users :: "UserModel list"
  st_posts :: "PostModel list"
  st_nextUserId :: int
  st_nextPostId :: int

text \<open>Modelled from the spec: \<^verbatim>\<open>UserService.findUser\<close>, the point lookup of a
  user by email (the match is case-sensitive).\<close>

definition mem_findUser :: "string \<Rightarrow> store \<Rightarrow> thrown + UserModel option" where
  "mem_findUser email s = Inr (find (\<lambda>u. user_email u = email) (st_users s))"

text \<open>Modelled from the spec: \<^verbatim>\<open>UserService.createUser\<close>. The email is unique: a
  creation that would break this fails with the uniqueness signal (Prisma's P2002) and
  writes nothing; otherwise the user gets a fresh id.\<close>

definition mem_createUser :: "UserCreateInput \<Rightarrow> store \<Rightarrow> (thrown + UserModel) \<times> store" where
  "mem_createUser input s =
     (case find (\<lambda>u. user_email u = uc_email input) (st_users s) of
        Some _ \<Rightarrow> (Inl (PrismaClientKnownRequestError ''P2002''), s)
      | None \<Rightarrow>
          (let u = \<lparr>user_id = st_nextUserId s, user_email = uc_email input,
                    user_name = uc_name input, user_password = uc_password input\<rparr>
           in (Inr u, s\<lparr>st_users := st_users s @ [u],
                        st_nextUserId := st_nextUserId s + 1\<rparr>)))"

text \<open>Modelled from the spec: \<^verbatim>\<open>PostService.createPost\<close>. The author email is
  resolved to a user id; with no such user the write fails with the missing-record
  signal (Prisma's P2025) and creates nothing. A new post starts unpublished.\<close>

definition mem_createPost :: "PostCreateInput \<Rightarrow> store \<Rightarrow> (thrown + PostModel) \<times> store" where
  "mem_createPost input s =
     (case find (\<lambda>u. user_email u = pc_author_connect_email input) (st_users s) of
        None \<Rightarrow> (Inl (PrismaClientKnownRequestError ''P2025''), s)
      | Some u \<Rightarrow>
          (let p = \<lparr>post_id = st_nextPostId s, post_title = pc_title input,
                    post_content = pc_content input, post_published = False,
                    post_authorId = user_id u\<rparr>
           in (Inr p, s\<lparr>st_posts := st_posts s @ [p],
                        st_nextPostId := st_nextPostId s + 1\<rparr>)))"

text \<open>Modelled from the spec: \<^verbatim>\<open>PostService.post\<close>, the point lookup of a post by
  id.\<close>

definition mem_post :: "int \<Rightarrow> store \<Rightarrow> thrown + PostModel option" where
  "mem_post i s = Inr (find (\<lambda>p. post_id p = i) (st_posts s))"

text \<open>Modelled from the spec: the repository's substring match, here the
  case-sensitive one. \<open>starts_with xs ys\<close> says that \<open>ys\<close> is a prefix of \<open>xs\<close>.\<close>

fun starts_with :: "string \<Rightarrow> string \<Rightarrow> bool" where
  "starts_with xs [] = True"
| "starts_with [] (y # ys) = False"
| "starts_with (x # xs) (y # ys) = (x = y \<and> starts_with xs ys)"

text \<open>Modelled from the spec: \<open>contains xs ys\<close> says that \<open>ys\<close> occurs in \<open>xs\<close>.\<close>

fun contains :: "string \<Rightarrow> string \<Rightarrow> bool" where
  "contains [] ys = (ys = [])"
| "contains (x # xs) ys = (starts_with (x # xs) ys \<or> contains xs ys)"

text \<open>Modelled from the spec: how the repository reads a \<^verbatim>\<open>where\<close>: the empty
  filter matches every post, \<^verbatim>\<open>OR\<close> matches when one of its filters does.\<close>

fun matches :: "PostWhereInput \<Rightarrow> PostModel \<Rightarrow> bool"
  and matches_any :: "PostWhereInput list \<Rightarrow> PostModel \<Rightarrow> bool" where
  "matches WhereEmpty p = True"
| "matches (WhereOR ws) p = matches_any ws p"
| "matches (ContentContains str) p = contains (post_content p) str"
| "matches (TitleContains str) p = contains (post_title p) str"
| "matches_any [] p = False"
| "matches_any (w # ws) p = (matches w p \<or> matches_any ws p)"

text \<open>Modelled from the spec: offset and limit. An absent \<^verbatim>\<open>skip\<close> skips nothing, an
  absent \<^verbatim>\<open>take\<close> keeps everything.\<close>

definition paginate :: "nat option \<Rightarrow> nat option \<Rightarrow> 'a list \<Rightarrow> 'a list" where
  "paginate skip_opt take_opt xs =
     (let rest = (case skip_opt of None \<Rightarrow> xs | Some k \<Rightarrow> drop k xs)
      in case take_opt of None \<Rightarrow> rest | Some n \<Rightarrow> take n rest)"

text \<open>Modelled from the spec: \<^verbatim>\<open>PostService.posts\<close>, the filtered list in the
  repository's order (the order of insertion), paginated.\<close>

definition mem_posts :: "PostsArgs \<Rightarrow> store \<Rightarrow> thrown + PostModel list" where
  "mem_posts args s =
     Inr (paginate (args_skip args) (args_take args)
            (filter (matches (args_where args)) (st_posts s)))"

text \<open>Modelled from the spec: a partial update applies the fields that are supplied
  and keeps the others.\<close>

definition apply_update :: "PostUpdateData \<Rightarrow> PostModel \<Rightarrow> PostModel" where
  "apply_update upd p =
     p\<lparr>post_title := (case upd_title upd of None \<Rightarrow> post_title p | Some t \<Rightarrow> t),
       post_content := (case upd_content upd of None \<Rightarrow> post_content p | Some c \<Rightarrow> c),
       post_published := (case upd_published upd of None \<Rightarrow> post_published p | Some b \<Rightarrow> b)\<rparr>"

text \<open>Modelled from the spec: \<^verbatim>\<open>PostService.updatePost\<close>. Updating a post that is
  not there fails with the missing-record signal and writes nothing.\<close>

definition mem_updatePost ::
  "int \<Rightarrow> PostUpdateData \<Rightarrow> store \<Rightarrow> (thrown + PostModel) \<times> store" where
  "mem_updatePost i upd s =
     (case find (\<lambda>p. post_id p = i) (st_posts s) of
        None \<Rightarrow> (Inl (PrismaClientKnownRequestError ''P2025''), s)
      | Some p \<Rightarrow>
          (Inr (apply_update upd p),
           s\<lparr>st_posts := map (\<lambda>q. if post_id q = i then apply_update upd q else q)
                              (st_posts s)\<rparr>))"

text \<open>Modelled from the spec: \<^verbatim>\<open>PostService.deletePost\<close>. Deleting a post that is
  not there fails with the missing-record signal; otherwise the post is removed.\<close>

definition mem_deletePost :: "int \<Rightarrow> store \<Rightarrow> (thrown + PostModel) \<times> store" where
  "mem_deletePost i s =
     (case find (\<lambda>p. post_id p = i) (st_posts s) of
        None \<Rightarrow> (Inl (PrismaClientKnownRequestError ''P2025''), s)
      | Some p \<Rightarrow> (Inr p, s\<lparr>st_posts := filter (\<lambda>q. post_id q \<noteq> i) (st_posts s)\<rparr>))"

text \<open>Modelled from the spec: the two services over the in-memory repository.\<close>

definition mem :: "store services" where
  "mem =
     \<lparr>userService_createUser = mem_createUser,
      userService_findUser = mem_findUser,
      postService_createPost = mem_createPost,
      postService_post = mem_post,
      postService_posts = mem_posts,
      postService_updatePost = mem_updatePost,
      postService_deletePost = mem_deletePost\<rparr>"

text \<open>Modelled from the spec: the repository before anything was stored.\<close>

definition empty_store :: store where
  "empty_store = \<lparr>st_users = [], st_posts = [], st_nextUserId = 1, st_nextPostId = 1\<rparr>"

text \<open>Modelled from the spec: the repository of the scenario of section 8, after the
  user \<^verbatim>\<open>a@x.com\<close> registered and created the draft "T"/"C".\<close>

definition scenario_store :: store where
  "scenario_store =
     \<lparr>st_users = [\<lparr>user_id = 1, user_email = ''a@x.com'', user_name = ''Ann'',
                    user_password = ''hash:pw1''\<rparr>],
      st_posts = [\<lparr>post_id = 1, post_title = ''T'', post_content = ''C'',
                    post_published = False, post_authorId = 1\<rparr>],
      st_nextUserId = 2, st_nextPostId = 2\<rparr>"

subsection \<open>Reading a trace\<close>

text \<open>A trace reads before it writes when a read stands before its first write.\<close>

definition read_before_write :: "call list \<Rightarrow> bool" where
  "read_before_write calls = list_ex is_read (takeWhile (\<lambda>c. \<not> is_write c) calls)"

text \<open>The statuses of a client error and of a server error.\<close>

fun is_client_error :: "'a outcome \<Rightarrow> bool" where
  "is_client_error (Throws (HttpException _ status)) = (400 \<le> status \<and> status < 500)"
| "is_client_error _ = False"

fun is_server_error :: "'a outcome \<Rightarrow> bool" where
  "is_server_error (Throws (HttpException _ status)) = (500 \<le> status \<and> status < 600)"
| "is_server_error _ = False"

section \<open>Properties\<close>

subsection \<open>Auxiliary facts\<close>

lemma starts_with_iff: "starts_with xs ys \<longleftrightarrow> (\<exists>suf. xs = ys @ suf)"
  by (induction xs ys rule: starts_with.induct) auto

lemma contains_iff: "contains xs ys \<longleftrightarrow> (\<exists>pre suf. xs = pre @ ys @ suf)"
proof (induction xs)
  case Nil
  then show ?case by auto
next
  case (Cons x xs)
  show ?case
  proof
    assume "contains (x # xs) ys"
    then consider "starts_with (x # xs) ys" | "contains xs ys" by auto
    then show "\<exists>pre suf. x # xs = pre @ ys @ suf"
    proof cases
      case 1
      then obtain suf where "x # xs = ys @ suf" using starts_with_iff by blast
      then have "x # xs = [] @ ys @ suf" by simp
      then show ?thesis by blast
    next
      case 2
      then obtain pre suf where "xs = pre @ ys @ suf" using Cons.IH by blast
      then have "x # xs = (x # pre) @ ys @ suf" by simp
      then show ?thesis by blast
    qed
  next
    assume "\<exists>pre suf. x # xs = pre @ ys @ suf"
    then obtain pre suf where eq: "x # xs = pre @ ys @ suf" by blast
    show "contains (x # xs) ys"
    proof (cases pre)
      case Nil
      with eq have "starts_with (x # xs) ys" using starts_with_iff by auto
      then show ?thesis by simp
    next
      case (Cons a pre')
      with eq have "xs = pre' @ ys @ suf" by simp
      then have "contains xs ys" using Cons.IH by blast
      then show ?thesis by simp
    qed
  qed
qed

lemma find_post_id: "find (\<lambda>p. post_id p = i) ps = Some p \<Longrightarrow> post_id p = i"
  by (induction ps) (auto split: if_splits)

lemma find_updated:
  assumes "\<And>q. post_id (f q) = post_id q"
  shows "find (\<lambda>p. post_id p = i) (map (\<lambda>q. if post_id q = i then f q else q) ps)
         = map_option f (find (\<lambda>p. post_id p = i) ps)"
  using assms by (induction ps) auto

lemma find_other_updated:
  assumes "\<And>q. post_id (f q) = post_id q" and "j \<noteq> i"
  shows "find (\<lambda>p. post_id p = j) (map (\<lambda>q. if post_id q = i then f q else q) ps)
         = find (\<lambda>p. post_id p = j) ps"
  using assms by (induction ps) auto

lemma find_deleted: "find (\<lambda>p. post_id p = i) (filter (\<lambda>q. post_id q \<noteq> i) ps) = None"
  by (induction ps) auto

lemma post_id_apply_update: "post_id (apply_update upd q) = post_id q"
  by (simp add: apply_update_def)

lemma mem_sel:
  "userService_createUser mem = mem_createUser"
  "userService_findUser mem = mem_findUser"
  "postService_createPost mem = mem_createPost"
  "postService_post mem = mem_post"
  "postService_posts mem = mem_posts"
  "postService_updatePost mem = mem_updatePost"
  "postService_deletePost mem = mem_deletePost"
  by (simp_all add: mem_def)

lemma scenario_store_reached:
  "snd (snd (createPostDraft mem
       \<lparr>draft_title = ''T'', draft_content = ''C'', draft_authorEmail = ''a@x.com''\<rparr>
       (snd (snd (signupUser mem (\<lambda>pw. Inr (''hash:'' @ pw))
          \<lparr>reg_name = ''Ann'', reg_email = ''a@x.com'', reg_password = ''pw1''\<rparr>
          empty_store)))))
   = scenario_store"
  by (simp add: createPostDraft_def signupUser_def mem_sel mem_createUser_def
      mem_createPost_def empty_store_def scenario_store_def Let_def)

lemma scenario_post:
  "find (\<lambda>q. post_id q = 1) (st_posts scenario_store)
     = Some \<lparr>post_id = 1, post_title = ''T'', post_content = ''C'',
             post_published = False, post_authorId = 1\<rparr>"
  "find (\<lambda>q. post_id q = 2) (st_posts scenario_store) = None"
  by (simp_all add: scenario_store_def)

lemma scenario_user:
  "find (\<lambda>u. user_email u = ''a@x.com'') (st_users scenario_store)
     = Some \<lparr>user_id = 1, user_email = ''a@x.com'', user_name = ''Ann'',
             user_password = ''hash:pw1''\<rparr>"
  "find (\<lambda>u. user_email u = ''b@x.com'') (st_users scenario_store) = None"
  by (simp_all add: scenario_store_def)

lemma publishPost_mem_found:
  assumes "find (\<lambda>q. post_id q = i) (st_posts s) = Some p"
  shows "publishPost mem i s
         = (Returns (p\<lparr>post_published := True\<rparr>),
            [CallPost i,
             CallUpdatePost i \<lparr>upd_title = None, upd_content = None, upd_published = Some True\<rparr>],
            s\<lparr>st_posts := map (\<lambda>q. if post_id q = i then q\<lparr>post_published := True\<rparr> else q)
                               (st_posts s)\<rparr>)"
proof -
  have "post_id p = i" using assms by (rule find_post_id)
  then show ?thesis
    using assms
    by (simp add: publishPost_def mem_sel mem_post_def mem_updatePost_def Let_def
        apply_update_def)
qed

subsection \<open>Existence checks before writes\<close>

text \<open>
  Claim C1, as amended. \<^verbatim>\<open>publishPost\<close>, \<^verbatim>\<open>updatePost\<close> and \<^verbatim>\<open>deletePost\<close> read
  the post before they write: whatever the services do, a read stands before the first
  write of their trace, and when the read finds no post they throw "Post not found"
  (404) having issued no write and left the state as it was. \<^verbatim>\<open>createPostDraft\<close>
  reads nothing: its only call is the write \<^verbatim>\<open>createPost\<close>, and it throws
  "Author not found" (404) when that write fails with the known Prisma error P2025.
\<close>

theorem read_before_write_post_handlers:
  "read_before_write (fst (snd (publishPost svc i s)))
   \<and> read_before_write (fst (snd (updatePost svc i body s)))
   \<and> read_before_write (fst (snd (deletePost svc i s)))
   \<and> (postService_post svc i s = Inr None \<longrightarrow>
        publishPost svc i s = (Throws (HttpException ''Post not found'' 404), [CallPost i], s)
      \<and> updatePost svc i body s = (Throws (HttpException ''Post not found'' 404), [CallPost i], s)
      \<and> deletePost svc i s = (Throws (HttpException ''Post not found'' 404), [CallPost i], s))
   \<and> fst (snd (createPostDraft svc postData s))
       = [CallCreatePost \<lparr>pc_title = draft_title postData, pc_content = draft_content postData,
                          pc_author_connect_email = draft_authorEmail postData\<rparr>]
   \<and> \<not> read_before_write (fst (snd (createPostDraft svc postData s)))
   \<and> (fst (postService_createPost svc
              \<lparr>pc_title = draft_title postData, pc_content = draft_content postData,
               pc_author_connect_email = draft_authorEmail postData\<rparr> s)
         = Inl (PrismaClientKnownRequestError ''P2025'') \<longrightarrow>
       fst (createPostDraft svc postData s) = Throws (HttpException ''Author not found'' 404))"
proof -
  have pub: "read_before_write (fst (snd (publishPost svc i s)))"
    by (simp add: publishPost_def read_before_write_def Let_def
        split: sum.splits option.splits prod.splits)
  have upd: "read_before_write (fst (snd (updatePost svc i body s)))"
    by (simp add: updatePost_def read_before_write_def Let_def
        split: sum.splits option.splits prod.splits)
  have del: "read_before_write (fst (snd (deletePost svc i s)))"
    by (simp add: deletePost_def read_before_write_def
        split: sum.splits option.splits prod.splits)
  have absent: "postService_post svc i s = Inr None \<longrightarrow>
        publishPost svc i s = (Throws (HttpException ''Post not found'' 404), [CallPost i], s)
      \<and> updatePost svc i body s = (Throws (HttpException ''Post not found'' 404), [CallPost i], s)
      \<and> deletePost svc i s = (Throws (HttpException ''Post not found'' 404), [CallPost i], s)"
    by (simp add: publishPost_def updatePost_def deletePost_def)
  have trace: "fst (snd (createPostDraft svc postData s))
       = [CallCreatePost \<lparr>pc_title = draft_title postData, pc_content = draft_content postData,
                          pc_author_connect_email = draft_authorEmail postData\<rparr>]"
    by (simp add: createPostDraft_def Let_def split: sum.splits prod.splits)
  have noread: "\<not> read_before_write (fst (snd (createPostDraft svc postData s)))"
    by (simp add: trace read_before_write_def)
  have author: "fst (postService_createPost svc
              \<lparr>pc_title = draft_title postData, pc_content = draft_content postData,
               pc_author_connect_email = draft_authorEmail postData\<rparr> s)
         = Inl (PrismaClientKnownRequestError ''P2025'') \<longrightarrow>
       fst (createPostDraft svc postData s) = Throws (HttpException ''Author not found'' 404)"
    by (auto simp add: createPostDraft_def Let_def split: sum.splits prod.splits)
  from pub upd del absent trace noread author show ?thesis by blast
qed

theorem read_before_write_post_handlers_witness:
  "read_before_write (fst (snd (publishPost mem 1 scenario_store)))
   \<and> publishPost mem 2 scenario_store
       = (Throws (HttpException ''Post not found'' 404), [CallPost 2], scenario_store)
   \<and> updatePost mem 2 \<lparr>body_title = Some ''X'', body_content = None\<rparr> scenario_store
       = (Throws (HttpException ''Post not found'' 404), [CallPost 2], scenario_store)
   \<and> deletePost mem 2 scenario_store
       = (Throws (HttpException ''Post not found'' 404), [CallPost 2], scenario_store)
   \<and> fst (createPostDraft mem
            \<lparr>draft_title = ''T'', draft_content = ''C'', draft_authorEmail = ''b@x.com''\<rparr>
            scenario_store) = Throws (HttpException ''Author not found'' 404)"
proof -
  have absent: "postService_post mem 2 scenario_store = Inr None"
    by (simp add: mem_sel mem_post_def scenario_post)
  have signal: "fst (postService_createPost mem
      \<lparr>pc_title = draft_title \<lparr>draft_title = ''T'', draft_content = ''C'',
                               draft_authorEmail = ''b@x.com''\<rparr>,
       pc_content = draft_content \<lparr>draft_title = ''T'', draft_content = ''C'',
                                   draft_authorEmail = ''b@x.com''\<rparr>,
       pc_author_connect_email = draft_authorEmail \<lparr>draft_title = ''T'', draft_content = ''C'',
                                   draft_authorEmail = ''b@x.com''\<rparr>\<rparr> scenario_store)
      = Inl (PrismaClientKnownRequestError ''P2025'')"
    by (simp add: mem_sel mem_createPost_def scenario_user)
  show ?thesis
    using absent signal
      read_before_write_post_handlers [of mem 1 scenario_store
        "\<lparr>body_title = Some ''X'', body_content = None\<rparr>"
        "\<lparr>draft_title = ''T'', draft_content = ''C'', draft_authorEmail = ''b@x.com''\<rparr>"]
      read_before_write_post_handlers [of mem 2 scenario_store
        "\<lparr>body_title = Some ''X'', body_content = None\<rparr>"
        "\<lparr>draft_title = ''T'', draft_content = ''C'', draft_authorEmail = ''b@x.com''\<rparr>"]
    by blast
qed

text \<open>
  The claim as it is written fails for \<^verbatim>\<open>createPostDraft\<close>: with no user
  \<^verbatim>\<open>b@x.com\<close> in the empty repository, the handler answers "Author not found"
  after a trace that holds no read before its write.
\<close>

theorem createPostDraft_no_read_counterexample:
  "\<not> read_before_write
       (fst (snd (createPostDraft mem
                    \<lparr>draft_title = ''T'', draft_content = ''C'', draft_authorEmail = ''b@x.com''\<rparr>
                    empty_store)))
   \<and> fst (createPostDraft mem
            \<lparr>draft_title = ''T'', draft_content = ''C'', draft_authorEmail = ''b@x.com''\<rparr>
            empty_store) = Throws (HttpException ''Author not found'' 404)"
  by (simp add: createPostDraft_def mem_sel mem_createPost_def empty_store_def
      read_before_write_def)

subsection \<open>Registration\<close>

text \<open>
  Claim C2. When \<^verbatim>\<open>createUser\<close> fails with the uniqueness signal (the known Prisma
  error P2002), \<^verbatim>\<open>signupUser\<close> throws the \<^verbatim>\<open>HttpException\<close> "Email or contact
  number already exist, please provide another one" of status 404, a client error and
  not a server error; it issues no call but the failed \<^verbatim>\<open>createUser\<close> and leaves the
  state that call left. Over the in-memory repository, registering an email that is
  already there leaves the repository as it was.
\<close>

theorem signupUser_duplicate_email:
  "(hash (reg_password userData) = Inr hashedPassword
      \<and> userService_createUser svc
           \<lparr>uc_email = reg_email userData, uc_name = reg_name userData,
            uc_password = hashedPassword\<rparr> s
         = (Inl (PrismaClientKnownRequestError ''P2002''), s') \<longrightarrow>
      signupUser svc hash userData s
        = (Throws (HttpException
                     ''Email or contact number already exist, please provide another one'' 404),
           [CallCreateUser \<lparr>uc_email = reg_email userData, uc_name = reg_name userData,
                            uc_password = hashedPassword\<rparr>],
           s')
      \<and> is_client_error (fst (signupUser svc hash userData s))
      \<and> \<not> is_server_error (fst (signupUser svc hash userData s)))
   \<and> (hash (reg_password userData) = Inr hashedPassword
        \<and> find (\<lambda>u. user_email u = reg_email userData) (st_users st) = Some u \<longrightarrow>
      signupUser mem hash userData st
        = (Throws (HttpException
                     ''Email or contact number already exist, please provide another one'' 404),
           [CallCreateUser \<lparr>uc_email = reg_email userData, uc_name = reg_name userData,
                            uc_password = hashedPassword\<rparr>],
           st))"
  by (simp add: signupUser_def Let_def mem_sel mem_createUser_def)

theorem signupUser_duplicate_email_witness:
  "signupUser mem (\<lambda>pw. Inr (''hash:'' @ pw))
     \<lparr>reg_name = ''Bob'', reg_email = ''a@x.com'', reg_password = ''pw2''\<rparr> scenario_store
   = (Throws (HttpException
                ''Email or contact number already exist, please provide another one'' 404),
      [CallCreateUser \<lparr>uc_email = ''a@x.com'', uc_name = ''Bob'', uc_password = ''hash:pw2''\<rparr>],
      scenario_store)
   \<and> is_client_error
       (fst (signupUser mem (\<lambda>pw. Inr (''hash:'' @ pw))
               \<lparr>reg_name = ''Bob'', reg_email = ''a@x.com'', reg_password = ''pw2''\<rparr>
               scenario_store))"
  using signupUser_duplicate_email
      [where svc = mem and hash = "\<lambda>pw. Inr (''hash:'' @ pw)"
         and userData = "\<lparr>reg_name = ''Bob'', reg_email = ''a@x.com'', reg_password = ''pw2''\<rparr>"
         and hashedPassword = "''hash:pw2''" and s = scenario_store and s' = scenario_store
         and st = scenario_store
         and u = "\<lparr>user_id = 1, user_email = ''a@x.com'', user_name = ''Ann'',
                    user_password = ''hash:pw1''\<rparr>"]
  by (simp add: mem_sel mem_createUser_def scenario_user)

text \<open>
  Claim C3 does not hold of the code. When \<^verbatim>\<open>createUser\<close> fails with a known Prisma
  error whose code is not P2002 (here P2024, the connection pool timing out),
  \<^verbatim>\<open>signupUser\<close> throws nothing: it resolves to \<^verbatim>\<open>undefined\<close>.
\<close>

theorem signupUser_known_error_resolves_undefined:
  "signupUser
     (mem\<lparr>userService_createUser :=
            \<lambda>input s. (Inl (PrismaClientKnownRequestError ''P2024''), s)\<rparr>)
     (\<lambda>pw. Inr (''hash:'' @ pw))
     \<lparr>reg_name = ''Ann'', reg_email = ''a@x.com'', reg_password = ''pw1''\<rparr> empty_store
   = (ResolvesUndefined,
      [CallCreateUser \<lparr>uc_email = ''a@x.com'', uc_name = ''Ann'', uc_password = ''hash:pw1''\<rparr>],
      empty_store)"
  by (simp add: signupUser_def)

subsection \<open>Login\<close>

text \<open>
  Claim C4. A login for an email that no user has, and a login for a user whose
  password does not verify, have the same outcome: the \<^verbatim>\<open>HttpException\<close>
  "Invalid email or password" of status 401.
\<close>

theorem login_invalid_credentials_same_outcome:
  assumes "userService_findUser svc1 (login_email body1) s1 = Inr None"
    and "userService_findUser svc2 (login_email body2) s2 = Inr (Some user)"
    and "compare (login_password body2) (user_password user) = Inr False"
  shows "fst (login svc1 compare signAsync body1 s1)
           = Throws (HttpException ''Invalid email or password'' 401)
       \<and> fst (login svc2 compare signAsync body2 s2)
           = fst (login svc1 compare signAsync body1 s1)"
  using assms by (simp add: login_def)

theorem login_invalid_credentials_same_outcome_witness:
  "fst (login mem (\<lambda>pw h. Inr (h = ''hash:'' @ pw)) (\<lambda>c. Inr ''token'')
          \<lparr>login_email = ''b@x.com'', login_password = ''pw1''\<rparr> scenario_store)
     = Throws (HttpException ''Invalid email or password'' 401)
   \<and> fst (login mem (\<lambda>pw h. Inr (h = ''hash:'' @ pw)) (\<lambda>c. Inr ''token'')
            \<lparr>login_email = ''a@x.com'', login_password = ''guess''\<rparr> scenario_store)
     = fst (login mem (\<lambda>pw h. Inr (h = ''hash:'' @ pw)) (\<lambda>c. Inr ''token'')
              \<lparr>login_email = ''b@x.com'', login_password = ''pw1''\<rparr> scenario_store)"
  using login_invalid_credentials_same_outcome
      [where ?svc1.0 = mem and ?svc2.0 = mem
         and compare = "\<lambda>pw h. Inr (h = ''hash:'' @ pw)" and signAsync = "\<lambda>c. Inr ''token''"
         and ?body1.0 = "\<lparr>login_email = ''b@x.com'', login_password = ''pw1''\<rparr>"
         and ?body2.0 = "\<lparr>login_email = ''a@x.com'', login_password = ''guess''\<rparr>"
         and ?s1.0 = scenario_store and ?s2.0 = scenario_store
         and user = "\<lparr>user_id = 1, user_email = ''a@x.com'', user_name = ''Ann'',
                       user_password = ''hash:pw1''\<rparr>"]
  by (simp add: mem_sel mem_findUser_def scenario_user)

subsection \<open>Publishing\<close>

text \<open>
  Claim C5. Whatever the services, \<^verbatim>\<open>publishPost\<close> throws "Post not found" (404)
  when the lookup finds no post, and otherwise asks the repository to set
  \<^verbatim>\<open>published\<close> to true on the post it found, whether or not it is published
  already. Over the in-memory repository: publishing a post that is there returns it
  with \<^verbatim>\<open>published = true\<close> and stores it so; publishing it again returns the same
  post, with no error, and leaves the repository as the first publication left it.
\<close>

theorem publishPost_publishes_idempotent:
  "(postService_post svc i s = Inr None \<longrightarrow>
      publishPost svc i s = (Throws (HttpException ''Post not found'' 404), [CallPost i], s))
   \<and> (postService_post svc i s = Inr (Some q) \<longrightarrow>
        fst (snd (publishPost svc i s))
          = [CallPost i,
             CallUpdatePost (post_id q)
               \<lparr>upd_title = None, upd_content = None, upd_published = Some True\<rparr>])
   \<and> (find (\<lambda>q. post_id q = i) (st_posts st) = Some p \<longrightarrow>
        fst (publishPost mem i st) = Returns (p\<lparr>post_published := True\<rparr>)
      \<and> postService_post mem i (snd (snd (publishPost mem i st)))
          = Inr (Some (p\<lparr>post_published := True\<rparr>))
      \<and> fst (publishPost mem i (snd (snd (publishPost mem i st))))
          = Returns (p\<lparr>post_published := True\<rparr>)
      \<and> snd (snd (publishPost mem i (snd (snd (publishPost mem i st)))))
          = snd (snd (publishPost mem i st)))"
proof -
  define f where "f = (\<lambda>q::PostModel. q\<lparr>post_published := True\<rparr>)"
  define ps' where "ps' = map (\<lambda>q. if post_id q = i then f q else q) (st_posts st)"
  define st' where "st' = st\<lparr>st_posts := ps'\<rparr>"
  have f_id: "post_id (f q) = post_id q" for q by (simp add: f_def)
  have ff: "f (f q) = f q" for q by (simp add: f_def)
  have absent: "postService_post svc i s = Inr None \<longrightarrow>
      publishPost svc i s = (Throws (HttpException ''Post not found'' 404), [CallPost i], s)"
    by (simp add: publishPost_def)
  have request: "postService_post svc i s = Inr (Some q) \<longrightarrow>
        fst (snd (publishPost svc i s))
          = [CallPost i,
             CallUpdatePost (post_id q)
               \<lparr>upd_title = None, upd_content = None, upd_published = Some True\<rparr>]"
    by (simp add: publishPost_def Let_def split: prod.splits sum.splits)
  have present: "fst (publishPost mem i st) = Returns (p\<lparr>post_published := True\<rparr>)
      \<and> postService_post mem i (snd (snd (publishPost mem i st)))
          = Inr (Some (p\<lparr>post_published := True\<rparr>))
      \<and> fst (publishPost mem i (snd (snd (publishPost mem i st))))
          = Returns (p\<lparr>post_published := True\<rparr>)
      \<and> snd (snd (publishPost mem i (snd (snd (publishPost mem i st)))))
          = snd (snd (publishPost mem i st))"
    if found: "find (\<lambda>q. post_id q = i) (st_posts st) = Some p"
  proof -
    have first: "publishPost mem i st
        = (Returns (f p),
           [CallPost i,
            CallUpdatePost i \<lparr>upd_title = None, upd_content = None, upd_published = Some True\<rparr>],
           st')"
      using publishPost_mem_found [OF found] by (simp add: f_def ps'_def st'_def)
    have "find (\<lambda>q. post_id q = i) ps' = Some (f p)"
      unfolding ps'_def using found f_id by (simp add: find_updated)
    then have found': "find (\<lambda>q. post_id q = i) (st_posts st') = Some (f p)"
      by (simp add: st'_def)
    have "map (\<lambda>q. if post_id q = i then f q else q) ps' = ps'"
      unfolding ps'_def by (simp add: f_id ff)
    then have again:
      "st'\<lparr>st_posts := map (\<lambda>q. if post_id q = i then f q else q) (st_posts st')\<rparr> = st'"
      by (simp add: st'_def)
    have second: "publishPost mem i st'
        = (Returns (f p),
           [CallPost i,
            CallUpdatePost i \<lparr>upd_title = None, upd_content = None, upd_published = Some True\<rparr>],
           st')"
      using publishPost_mem_found [OF found' [unfolded f_def]] again [unfolded f_def]
      by (simp add: f_def)
    show ?thesis
      unfolding first using second found' by (simp add: mem_sel mem_post_def f_def)
  qed
  from absent request present show ?thesis by blast
qed

theorem publishPost_publishes_idempotent_witness:
  "publishPost mem 2 scenario_store
     = (Throws (HttpException ''Post not found'' 404), [CallPost 2], scenario_store)
   \<and> fst (snd (publishPost mem 1 scenario_store))
       = [CallPost 1,
          CallUpdatePost 1 \<lparr>upd_title = None, upd_content = None, upd_published = Some True\<rparr>]
   \<and> fst (publishPost mem 1 scenario_store)
       = Returns \<lparr>post_id = 1, post_title = ''T'', post_content = ''C'',
                  post_published = True, post_authorId = 1\<rparr>
   \<and> fst (publishPost mem 1 (snd (snd (publishPost mem 1 scenario_store))))
       = Returns \<lparr>post_id = 1, post_title = ''T'', post_content = ''C'',
                  post_published = True, post_authorId = 1\<rparr>
   \<and> snd (snd (publishPost mem 1 (snd (snd (publishPost mem 1 scenario_store)))))
       = snd (snd (publishPost mem 1 scenario_store))"
  using publishPost_publishes_idempotent
      [where svc = mem and i = 2 and s = scenario_store and st = scenario_store]
    publishPost_publishes_idempotent
      [where svc = mem and i = 1 and s = scenario_store and st = scenario_store
         and q = "\<lparr>post_id = 1, post_title = ''T'', post_content = ''C'',
                    post_published = False, post_authorId = 1\<rparr>"
         and p = "\<lparr>post_id = 1, post_title = ''T'', post_content = ''C'',
                    post_published = False, post_authorId = 1\<rparr>"]
  by (simp add: scenario_post mem_sel mem_post_def)

subsection \<open>Updating\<close>

text \<open>
  Claim C6. Over the in-memory repository, \<^verbatim>\<open>updatePost\<close> on a post that is there
  returns, and stores, the post with the title and the content of the body where the
  body gives them, and with every other field (the omitted ones, \<^verbatim>\<open>published\<close>,
  \<^verbatim>\<open>authorId\<close>, the id) as it was; the other posts and the users stay as they were.
  With the body \<^verbatim>\<open>{title: "X"}\<close> only the title changes.
\<close>

theorem updatePost_applies_supplied_fields:
  assumes "find (\<lambda>q. post_id q = i) (st_posts s) = Some p"
  shows "fst (updatePost mem i body s)
           = Returns \<lparr>statusCode = 200,
                      data = p\<lparr>post_title := (case body_title body of
                                                None \<Rightarrow> post_title p | Some t \<Rightarrow> t),
                               post_content := (case body_content body of
                                                  None \<Rightarrow> post_content p | Some c \<Rightarrow> c)\<rparr>\<rparr>
       \<and> postService_post mem i (snd (snd (updatePost mem i body s)))
           = Inr (Some (p\<lparr>post_title := (case body_title body of
                                            None \<Rightarrow> post_title p | Some t \<Rightarrow> t),
                           post_content := (case body_content body of
                                              None \<Rightarrow> post_content p | Some c \<Rightarrow> c)\<rparr>))
       \<and> (j \<noteq> i \<longrightarrow> postService_post mem j (snd (snd (updatePost mem i body s)))
                        = postService_post mem j s)
       \<and> st_users (snd (snd (updatePost mem i body s))) = st_users s"
proof -
  let ?upd = "\<lparr>upd_title = body_title body, upd_content = body_content body,
               upd_published = None\<rparr>"
  let ?f = "apply_update ?upd"
  let ?s' = "s\<lparr>st_posts := map (\<lambda>q. if post_id q = i then ?f q else q) (st_posts s)\<rparr>"
  have id: "post_id p = i" using assms by (rule find_post_id)
  have fp: "?f p = p\<lparr>post_title := (case body_title body of
                                      None \<Rightarrow> post_title p | Some t \<Rightarrow> t),
                     post_content := (case body_content body of
                                        None \<Rightarrow> post_content p | Some c \<Rightarrow> c)\<rparr>"
    by (simp add: apply_update_def)
  have run: "updatePost mem i body s
      = (Returns \<lparr>statusCode = 200, data = ?f p\<rparr>, [CallPost i, CallUpdatePost i ?upd], ?s')"
    using assms id
    by (simp add: updatePost_def mem_sel mem_post_def mem_updatePost_def Let_def)
  have stored: "find (\<lambda>q. post_id q = i) (st_posts ?s') = Some (?f p)"
    using assms by (simp add: find_updated post_id_apply_update)
  have others: "find (\<lambda>q. post_id q = j) (st_posts ?s') = find (\<lambda>q. post_id q = j) (st_posts s)"
    if "j \<noteq> i"
    using that by (simp add: find_other_updated post_id_apply_update)
  show ?thesis
    using stored others unfolding run fp [symmetric] by (simp add: mem_sel mem_post_def)
qed

theorem updatePost_applies_supplied_fields_witness:
  "fst (updatePost mem 1 \<lparr>body_title = Some ''X'', body_content = None\<rparr> scenario_store)
     = Returns \<lparr>statusCode = 200,
                data = \<lparr>post_id = 1, post_title = ''X'', post_content = ''C'',
                        post_published = False, post_authorId = 1\<rparr>\<rparr>
   \<and> postService_post mem 1
       (snd (snd (updatePost mem 1 \<lparr>body_title = Some ''X'', body_content = None\<rparr>
                    scenario_store)))
     = Inr (Some \<lparr>post_id = 1, post_title = ''X'', post_content = ''C'',
                  post_published = False, post_authorId = 1\<rparr>)"
  using updatePost_applies_supplied_fields [OF scenario_post(1),
      of "\<lparr>body_title = Some ''X'', body_content = None\<rparr>"]
  by simp

subsection \<open>Deleting\<close>

text \<open>
  Claim C7. Whatever the services, \<^verbatim>\<open>deletePost\<close> and \<^verbatim>\<open>getPostById\<close> throw
  "Post not found" (404) when the lookup finds no post, and \<^verbatim>\<open>deletePost\<close> asks for
  the deletion of the post when the lookup finds it. Over the in-memory repository:
  deleting a post that is there succeeds, the post is no longer found, and
  \<^verbatim>\<open>getPostById\<close> then throws "Post not found".
\<close>

theorem deletePost_then_getPostById:
  "(postService_post svc i s = Inr None \<longrightarrow>
      deletePost svc i s = (Throws (HttpException ''Post not found'' 404), [CallPost i], s)
    \<and> getPostById svc i s = (Throws (HttpException ''Post not found'' 404), [CallPost i], s))
   \<and> (postService_post svc i s = Inr (Some q) \<longrightarrow>
        fst (snd (deletePost svc i s)) = [CallPost i, CallDeletePost i])
   \<and> (find (\<lambda>q. post_id q = i) (st_posts st) = Some p \<longrightarrow>
        fst (deletePost mem i st)
          = Returns \<lparr>msg_statusCode = 200,
                     message = ''Successfully deleted post with id '' @ show_int i\<rparr>
      \<and> postService_post mem i (snd (snd (deletePost mem i st))) = Inr None
      \<and> fst (getPostById mem i (snd (snd (deletePost mem i st))))
          = Throws (HttpException ''Post not found'' 404))"
proof -
  let ?st' = "st\<lparr>st_posts := filter (\<lambda>q. post_id q \<noteq> i) (st_posts st)\<rparr>"
  have absent: "postService_post svc i s = Inr None \<longrightarrow>
      deletePost svc i s = (Throws (HttpException ''Post not found'' 404), [CallPost i], s)
    \<and> getPostById svc i s = (Throws (HttpException ''Post not found'' 404), [CallPost i], s)"
    by (simp add: deletePost_def getPostById_def)
  have request: "postService_post svc i s = Inr (Some q) \<longrightarrow>
        fst (snd (deletePost svc i s)) = [CallPost i, CallDeletePost i]"
    by (simp add: deletePost_def split: prod.splits sum.splits)
  have present: "fst (deletePost mem i st)
          = Returns \<lparr>msg_statusCode = 200,
                     message = ''Successfully deleted post with id '' @ show_int i\<rparr>
      \<and> postService_post mem i (snd (snd (deletePost mem i st))) = Inr None
      \<and> fst (getPostById mem i (snd (snd (deletePost mem i st))))
          = Throws (HttpException ''Post not found'' 404)"
    if found: "find (\<lambda>q. post_id q = i) (st_posts st) = Some p"
  proof -
    have run: "deletePost mem i st
        = (Returns \<lparr>msg_statusCode = 200,
                    message = ''Successfully deleted post with id '' @ show_int i\<rparr>,
           [CallPost i, CallDeletePost i], ?st')"
      using found by (simp add: deletePost_def mem_sel mem_post_def mem_deletePost_def)
    have gone: "find (\<lambda>q. post_id q = i) (st_posts ?st') = None"
      by (simp add: find_deleted)
    show ?thesis
      unfolding run using gone by (simp add: getPostById_def mem_sel mem_post_def)
  qed
  from absent request present show ?thesis by blast
qed

theorem deletePost_then_getPostById_witness:
  "deletePost mem 2 scenario_store
     = (Throws (HttpException ''Post not found'' 404), [CallPost 2], scenario_store)
   \<and> fst (snd (deletePost mem 1 scenario_store)) = [CallPost 1, CallDeletePost 1]
   \<and> fst (deletePost mem 1 scenario_store)
       = Returns \<lparr>msg_statusCode = 200, message = ''Successfully deleted post with id 1''\<rparr>
   \<and> fst (getPostById mem 1 (snd (snd (deletePost mem 1 scenario_store))))
       = Throws (HttpException ''Post not found'' 404)"
proof -
  have "show_int 1 = ''1''" by (simp add: show_int_def)
  then show ?thesis
    using deletePost_then_getPostById
        [where svc = mem and i = 2 and s = scenario_store and st = scenario_store]
      deletePost_then_getPostById
        [where svc = mem and i = 1 and s = scenario_store and st = scenario_store
           and q = "\<lparr>post_id = 1, post_title = ''T'', post_content = ''C'',
                      post_published = False, post_authorId = 1\<rparr>"
           and p = "\<lparr>post_id = 1, post_title = ''T'', post_content = ''C'',
                      post_published = False, post_authorId = 1\<rparr>"]
    by (simp add: scenario_post mem_sel mem_post_def)
qed

subsection \<open>Listing\<close>

text \<open>
  Claim C8. Over the in-memory repository, \<^verbatim>\<open>getPosts\<close> returns the posts of the
  repository whose title or content has the search string as a substring when a
  search string is given, and all of them when none is given; of these it drops the
  first \<^verbatim>\<open>skip\<close> and keeps at most \<^verbatim>\<open>take\<close>, each when given.
\<close>

theorem getPosts_filters_and_paginates:
  "getPosts mem query s
     = (Returns
          ((case q_take query of None \<Rightarrow> (\<lambda>xs. xs) | Some n \<Rightarrow> take n)
             (drop (case q_skip query of None \<Rightarrow> 0 | Some k \<Rightarrow> k)
                (case q_searchString query of
                   None \<Rightarrow> st_posts s
                 | Some str \<Rightarrow>
                     filter (\<lambda>p. (\<exists>pre suf. post_title p = pre @ str @ suf)
                                 \<or> (\<exists>pre suf. post_content p = pre @ str @ suf))
                       (st_posts s)))),
        [CallPosts (getPosts_args query)], s)"
proof -
  have pag: "paginate sk tk xs
      = (case tk of None \<Rightarrow> (\<lambda>xs. xs) | Some n \<Rightarrow> take n)
          (drop (case sk of None \<Rightarrow> 0 | Some k \<Rightarrow> k) xs)" for sk tk and xs :: "PostModel list"
    by (simp add: paginate_def Let_def split: option.splits)
  have flt: "filter (matches (args_where (getPosts_args query))) (st_posts s)
      = (case q_searchString query of
           None \<Rightarrow> st_posts s
         | Some str \<Rightarrow>
             filter (\<lambda>p. (\<exists>pre suf. post_title p = pre @ str @ suf)
                         \<or> (\<exists>pre suf. post_content p = pre @ str @ suf))
               (st_posts s))"
  proof (cases "q_searchString query")
    case None
    then show ?thesis by (simp add: getPosts_args_def)
  next
    case (Some str)
    show ?thesis
    proof (cases "str = []")
      case True
      have "(\<exists>pre suf. xs = pre @ suf)" for xs :: string by (rule exI [of _ "[]"]) simp
      with True Some show ?thesis by (simp add: getPosts_args_def)
    next
      case False
      have "matches (WhereOR [ContentContains str, TitleContains str])
            = (\<lambda>p. (\<exists>pre suf. post_title p = pre @ str @ suf)
                     \<or> (\<exists>pre suf. post_content p = pre @ str @ suf))"
        by (rule ext) (simp add: contains_iff disj_commute)
      with False Some show ?thesis by (simp add: getPosts_args_def)
    qed
  qed
  show ?thesis
    by (simp add: getPosts_def mem_sel mem_posts_def pag flt [symmetric] getPosts_args_def)
qed

theorem getPosts_filters_and_paginates_witness:
  "getPosts mem \<lparr>q_skip = Some 0, q_take = Some 1, q_searchString = Some ''C''\<rparr> scenario_store
     = (Returns [\<lparr>post_id = 1, post_title = ''T'', post_content = ''C'',
                  post_published = False, post_authorId = 1\<rparr>],
        [CallPosts \<lparr>args_take = Some 1, args_skip = Some 0,
                    args_where = WhereOR [ContentContains ''C'', TitleContains ''C'']\<rparr>],
        scenario_store)
   \<and> take 1 (drop 0 (filter (\<lambda>p. (\<exists>pre suf. post_title p = pre @ ''C'' @ suf)
                                  \<or> (\<exists>pre suf. post_content p = pre @ ''C'' @ suf))
                        (st_posts scenario_store)))
     = [\<lparr>post_id = 1, post_title = ''T'', post_content = ''C'',
         post_published = False, post_authorId = 1\<rparr>]"
proof -
  have run: "getPosts mem \<lparr>q_skip = Some 0, q_take = Some 1, q_searchString = Some ''C''\<rparr>
      scenario_store
     = (Returns [\<lparr>post_id = 1, post_title = ''T'', post_content = ''C'',
                  post_published = False, post_authorId = 1\<rparr>],
        [CallPosts \<lparr>args_take = Some 1, args_skip = Some 0,
                    args_where = WhereOR [ContentContains ''C'', TitleContains ''C'']\<rparr>],
        scenario_store)"
    by (simp add: getPosts_def getPosts_args_def mem_sel mem_posts_def paginate_def
        scenario_store_def)
  show ?thesis
    using run
      getPosts_filters_and_paginates
        [of "\<lparr>q_skip = Some 0, q_take = Some 1, q_searchString = Some ''C''\<rparr>" scenario_store]
    by simp
qed

subsection \<open>Creating a draft\<close>

text \<open>
  Claim C9. Over the in-memory repository, \<^verbatim>\<open>createPostDraft\<close> with an author email
  that no user has throws "Author not found" (404) and leaves the repository as it
  was; and when it returns a post, that post is unpublished and is the one post added
  to the repository.
\<close>

theorem createPostDraft_author_and_draft:
  "(find (\<lambda>u. user_email u = draft_authorEmail postData) (st_users s) = None \<longrightarrow>
      createPostDraft mem postData s
        = (Throws (HttpException ''Author not found'' 404),
           [CallCreatePost \<lparr>pc_title = draft_title postData, pc_content = draft_content postData,
                            pc_author_connect_email = draft_authorEmail postData\<rparr>],
           s))
   \<and> (fst (createPostDraft mem postData s) = Returns r \<longrightarrow>
        post_published (data r) = False
      \<and> st_posts (snd (snd (createPostDraft mem postData s))) = st_posts s @ [data r])"
  by (auto simp add: createPostDraft_def mem_sel mem_createPost_def Let_def
      split: option.splits)

theorem createPostDraft_author_and_draft_witness:
  "createPostDraft mem
     \<lparr>draft_title = ''T2'', draft_content = ''C2'', draft_authorEmail = ''b@x.com''\<rparr>
     scenario_store
   = (Throws (HttpException ''Author not found'' 404),
      [CallCreatePost \<lparr>pc_title = ''T2'', pc_content = ''C2'',
                       pc_author_connect_email = ''b@x.com''\<rparr>],
      scenario_store)
   \<and> fst (createPostDraft mem
            \<lparr>draft_title = ''T2'', draft_content = ''C2'', draft_authorEmail = ''a@x.com''\<rparr>
            scenario_store)
     = Returns \<lparr>statusCode = 200,
                data = \<lparr>post_id = 2, post_title = ''T2'', post_content = ''C2'',
                        post_published = False, post_authorId = 1\<rparr>\<rparr>
   \<and> st_posts (snd (snd (createPostDraft mem
        \<lparr>draft_title = ''T2'', draft_content = ''C2'', draft_authorEmail = ''a@x.com''\<rparr>
        scenario_store)))
     = st_posts scenario_store
       @ [\<lparr>post_id = 2, post_title = ''T2'', post_content = ''C2'',
           post_published = False, post_authorId = 1\<rparr>]"
proof -
  have created: "fst (createPostDraft mem
            \<lparr>draft_title = ''T2'', draft_content = ''C2'', draft_authorEmail = ''a@x.com''\<rparr>
            scenario_store)
     = Returns \<lparr>statusCode = 200,
                data = \<lparr>post_id = 2, post_title = ''T2'', post_content = ''C2'',
                        post_published = False, post_authorId = 1\<rparr>\<rparr>"
    by (simp add: createPostDraft_def mem_sel mem_createPost_def scenario_user Let_def)
      (simp add: scenario_store_def)
  show ?thesis
    using created
      createPostDraft_author_and_draft
        [of "\<lparr>draft_title = ''T2'', draft_content = ''C2'', draft_authorEmail = ''b@x.com''\<rparr>"
          scenario_store]
      createPostDraft_author_and_draft
        [of "\<lparr>draft_title = ''T2'', draft_content = ''C2'', draft_authorEmail = ''a@x.com''\<rparr>"
          scenario_store
          "\<lparr>statusCode = 200,
            data = \<lparr>post_id = 2, post_title = ''T2'', post_content = ''C2'',
                    post_published = False, post_authorId = 1\<rparr>\<rparr>"]
    by (simp add: scenario_user)
qed

text \<open>
  Claim C10. When \<^verbatim>\<open>createPost\<close> fails with an error that is not the known Prisma
  error P2025, \<^verbatim>\<open>createPostDraft\<close> neither throws nor returns a post: it resolves to
  \<^verbatim>\<open>undefined\<close>, after the one call and in the state that call left.
\<close>

theorem createPostDraft_swallows_other_errors:
  assumes "postService_createPost svc
             \<lparr>pc_title = draft_title postData, pc_content = draft_content postData,
              pc_author_connect_email = draft_authorEmail postData\<rparr> s = (Inl error, s')"
    and "error \<noteq> PrismaClientKnownRequestError ''P2025''"
  shows "createPostDraft svc postData s
         = (ResolvesUndefined,
            [CallCreatePost \<lparr>pc_title = draft_title postData, pc_content = draft_content postData,
                             pc_author_connect_email = draft_authorEmail postData\<rparr>],
            s')"
  using assms by (cases error) (simp_all add: createPostDraft_def Let_def)

theorem createPostDraft_swallows_other_errors_witness:
  "createPostDraft
     (mem\<lparr>postService_createPost :=
            \<lambda>input s. (Inl (PrismaClientKnownRequestError ''P2003''), s)\<rparr>)
     \<lparr>draft_title = ''T'', draft_content = ''C'', draft_authorEmail = ''a@x.com''\<rparr>
     scenario_store
   = (ResolvesUndefined,
      [CallCreatePost \<lparr>pc_title = ''T'', pc_content = ''C'',
                       pc_author_connect_email = ''a@x.com''\<rparr>],
      scenario_store)
   \<and> createPostDraft
     (mem\<lparr>postService_createPost := \<lambda>input s. (Inl (OtherError ''connection lost''), s)\<rparr>)
     \<lparr>draft_title = ''T'', draft_content = ''C'', draft_authorEmail = ''a@x.com''\<rparr>
     scenario_store
   = (ResolvesUndefined,
      [CallCreatePost \<lparr>pc_title = ''T'', pc_content = ''C'',
                       pc_author_connect_email = ''a@x.com''\<rparr>],
      scenario_store)"
  using createPostDraft_swallows_other_errors
      [of "mem\<lparr>postService_createPost :=
                \<lambda>input s. (Inl (PrismaClientKnownRequestError ''P2003''), s)\<rparr>"
        "\<lparr>draft_title = ''T'', draft_content = ''C'', draft_authorEmail = ''a@x.com''\<rparr>"
        scenario_store "PrismaClientKnownRequestError ''P2003''" scenario_store]
    createPostDraft_swallows_other_errors
      [of "mem\<lparr>postService_createPost := \<lambda>input s. (Inl (OtherError ''connection lost''), s)\<rparr>"
        "\<lparr>draft_title = ''T'', draft_content = ''C'', draft_authorEmail = ''a@x.com''\<rparr>"
        scenario_store "OtherError ''connection lost''" scenario_store]
  by simp

end
